theory Spec2Isabelle
  imports Complex_Main "HOL-Library.Word" "HOL-Library.Log_Nat"
begin

section \<open>Python numbers and exceptions\<close>

text \<open>
  The geometric fields of a box are annotated \<^verbatim>\<open>int | float\<close>. A value is therefore
  tagged with its Python type: the tag decides what true division returns and whether the
  value may be used as a slice index. A float holds a real number (no infinities, no NaN);
  \<open>val\<close> reads the numeric value, which is what Python's \<^verbatim>\<open><=\<close> and \<^verbatim>\<open>==\<close> compare
  across the two types. The operations of this section compute exactly, without the
  rounding of binary64; the section on binary64 arithmetic gives the operations of the
  conversion between the two forms again with the rounding, for the property that the
  rounding decides.
\<close>

datatype pynum = PInt int | PFloat real

datatype error = ValueError | TypeError | IndexError | AttributeError | ZeroDivisionError

fun val :: "pynum \<Rightarrow> real" where
  "val (PInt i) = real_of_int i"
| "val (PFloat x) = x"

text \<open>\<^verbatim>\<open>int(x)\<close> on a float truncates toward zero; on an int it is the identity.\<close>

definition trunc_toward_zero :: "real \<Rightarrow> int" where
  "trunc_toward_zero x = (if 0 \<le> x then \<lfloor>x\<rfloor> else \<lceil>x\<rceil>)"

fun py_int :: "pynum \<Rightarrow> pynum" where
  "py_int (PInt i) = PInt i"
| "py_int (PFloat x) = PInt (trunc_toward_zero x)"

text \<open>\<^verbatim>\<open>x * n\<close> with \<open>n\<close> an int: an int stays an int, a float stays a float.\<close>

fun py_mul :: "pynum \<Rightarrow> int \<Rightarrow> pynum" where
  "py_mul (PInt i) n = PInt (i * n)"
| "py_mul (PFloat x) n = PFloat (x * real_of_int n)"

text \<open>\<^verbatim>\<open>x / n\<close> is true division: the result is always a float, and a zero divisor raises.\<close>

definition py_truediv :: "pynum \<Rightarrow> int \<Rightarrow> error + pynum" where
  "py_truediv x n = (if n = 0 then Inl ZeroDivisionError else Inr (PFloat (val x / real_of_int n)))"

text \<open>\<^verbatim>\<open>x / 2\<close>: the divisor is the literal 2, so nothing is raised.\<close>

definition py_half :: "pynum \<Rightarrow> pynum" where
  "py_half x = PFloat (val x / 2)"

fun py_add :: "pynum \<Rightarrow> pynum \<Rightarrow> pynum" where
  "py_add (PInt i) (PInt j) = PInt (i + j)"
| "py_add x y = PFloat (val x + val y)"

fun py_sub :: "pynum \<Rightarrow> pynum \<Rightarrow> pynum" where
  "py_sub (PInt i) (PInt j) = PInt (i - j)"
| "py_sub x y = PFloat (val x - val y)"

section \<open>Bounding boxes\<close>

record IBoundingBox =
  class_id :: int

record BoundingBox = IBoundingBox +
  min_x :: pynum
  max_x :: pynum
  min_y :: pynum
  max_y :: pynum

record CenteredBoundingBox = IBoundingBox +
  center_x :: pynum
  center_y :: pynum
  width :: pynum
  height :: pynum

text \<open>The lambda \<^verbatim>\<open>check_is_relative\<close> of both \<^verbatim>\<open>is_relative\<close> properties.\<close>

definition check_is_relative :: "pynum \<Rightarrow> bool" where
  "check_is_relative coordinate = (0 \<le> val coordinate \<and> val coordinate \<le> 1)"

subsection \<open>Corner form\<close>

definition BoundingBox_is_relative :: "BoundingBox \<Rightarrow> bool" where
  "BoundingBox_is_relative self =
     (check_is_relative (min_x self) \<and> check_is_relative (max_x self) \<and>
      check_is_relative (min_y self) \<and> check_is_relative (max_y self))"

definition BoundingBox_is_absolute :: "BoundingBox \<Rightarrow> bool" where
  "BoundingBox_is_absolute self = (\<not> BoundingBox_is_relative self)"

definition BoundingBox_to_absolute :: "BoundingBox \<Rightarrow> int \<Rightarrow> int \<Rightarrow> BoundingBox" where
  "BoundingBox_to_absolute self img_width img_height =
     (if \<not> BoundingBox_is_absolute self then
        \<lparr>class_id = class_id self,
         min_x = py_int (py_mul (min_x self) img_width),
         max_x = py_int (py_mul (max_x self) img_width),
         min_y = py_int (py_mul (min_y self) img_height),
         max_y = py_int (py_mul (max_y self) img_height)\<rparr>
      else
        \<lparr>class_id = class_id self,
         min_x = min_x self, max_x = max_x self,
         min_y = min_y self, max_y = max_y self\<rparr>)"

text \<open>
  The four divisions are evaluated in field order; each raises only ZeroDivisionError, so
  the result is that error as soon as one of them raises.
\<close>

definition BoundingBox_to_relative :: "BoundingBox \<Rightarrow> int \<Rightarrow> int \<Rightarrow> error + BoundingBox" where
  "BoundingBox_to_relative self img_width img_height =
     (if \<not> BoundingBox_is_relative self then
        (case (py_truediv (min_x self) img_width, py_truediv (max_x self) img_width,
               py_truediv (min_y self) img_height, py_truediv (max_y self) img_height) of
           (Inr x0, Inr x1, Inr y0, Inr y1) \<Rightarrow>
             Inr \<lparr>class_id = class_id self, min_x = x0, max_x = x1, min_y = y0, max_y = y1\<rparr>
         | _ \<Rightarrow> Inl ZeroDivisionError)
      else
        Inr \<lparr>class_id = class_id self,
             min_x = min_x self, max_x = max_x self,
             min_y = min_y self, max_y = max_y self\<rparr>)"

definition to_centered_bbox :: "BoundingBox \<Rightarrow> CenteredBoundingBox" where
  "to_centered_bbox self =
     \<lparr>class_id = class_id self,
      center_x = py_half (py_add (min_x self) (max_x self)),
      center_y = py_half (py_add (min_y self) (max_y self)),
      width = py_sub (max_x self) (min_x self),
      height = py_sub (max_y self) (min_y self)\<rparr>"

subsection \<open>Center form\<close>

definition CenteredBoundingBox_is_relative :: "CenteredBoundingBox \<Rightarrow> bool" where
  "CenteredBoundingBox_is_relative self =
     (check_is_relative (center_x self) \<and> check_is_relative (center_y self) \<and>
      check_is_relative (width self) \<and> check_is_relative (height self))"

definition CenteredBoundingBox_is_absolute :: "CenteredBoundingBox \<Rightarrow> bool" where
  "CenteredBoundingBox_is_absolute self = (\<not> CenteredBoundingBox_is_relative self)"

definition CenteredBoundingBox_to_absolute ::
    "CenteredBoundingBox \<Rightarrow> int \<Rightarrow> int \<Rightarrow> CenteredBoundingBox" where
  "CenteredBoundingBox_to_absolute self img_width img_height =
     (if \<not> CenteredBoundingBox_is_absolute self then
        \<lparr>class_id = class_id self,
         center_x = py_int (py_mul (center_x self) img_width),
         center_y = py_int (py_mul (center_y self) img_height),
         width = py_int (py_mul (width self) img_width),
         height = py_int (py_mul (height self) img_height)\<rparr>
      else
        \<lparr>class_id = class_id self,
         center_x = center_x self, center_y = center_y self,
         width = width self, height = height self\<rparr>)"

definition CenteredBoundingBox_to_relative ::
    "CenteredBoundingBox \<Rightarrow> int \<Rightarrow> int \<Rightarrow> error + CenteredBoundingBox" where
  "CenteredBoundingBox_to_relative self img_width img_height =
     (if \<not> CenteredBoundingBox_is_relative self then
        (case (py_truediv (center_x self) img_width, py_truediv (center_y self) img_height,
               py_truediv (width self) img_width, py_truediv (height self) img_height) of
           (Inr cx, Inr cy, Inr w, Inr h) \<Rightarrow>
             Inr \<lparr>class_id = class_id self, center_x = cx, center_y = cy, width = w, height = h\<rparr>
         | _ \<Rightarrow> Inl ZeroDivisionError)
      else
        Inr \<lparr>class_id = class_id self,
             center_x = center_x self, center_y = center_y self,
             width = width self, height = height self\<rparr>)"

definition to_bbox :: "CenteredBoundingBox \<Rightarrow> BoundingBox" where
  "to_bbox self =
     \<lparr>class_id = class_id self,
      min_x = py_sub (center_x self) (py_half (width self)),
      max_x = py_add (center_x self) (py_half (width self)),
      min_y = py_sub (center_y self) (py_half (height self)),
      max_y = py_add (center_y self) (py_half (height self))\<rparr>"

subsection \<open>Equality of boxes\<close>



section \<open>Strings and number literals\<close>

text \<open>
  A string is a list of code points below 256. \<^verbatim>\<open>str.split()\<close> without arguments cuts at
  runs of whitespace and yields no empty token; the whitespace code points in that range
  are 9 to 13, 28 to 32, 133 and 160.
\<close>

definition isspace :: "char \<Rightarrow> bool" where
  "isspace c = (let n = (of_char c :: nat) in
     (9 \<le> n \<and> n \<le> 13) \<or> (28 \<le> n \<and> n \<le> 32) \<or> n = 133 \<or> n = 160)"

fun split_acc :: "string \<Rightarrow> string \<Rightarrow> string list" where
  "split_acc cur [] = (if cur = [] then [] else [cur])"
| "split_acc cur (c # cs) =
     (if isspace c then (if cur = [] then split_acc [] cs else cur # split_acc [] cs)
      else split_acc (cur @ [c]) cs)"

definition py_split :: "string \<Rightarrow> string list" where
  "py_split s = split_acc [] s"

text \<open>\<^verbatim>\<open>s.split(sep)\<close> with a separator keeps empty pieces.\<close>

fun split_sep_acc :: "char \<Rightarrow> string \<Rightarrow> string \<Rightarrow> string list" where
  "split_sep_acc sep cur [] = [cur]"
| "split_sep_acc sep cur (c # cs) =
     (if c = sep then cur # split_sep_acc sep [] cs else split_sep_acc sep (cur @ [c]) cs)"

definition py_split_sep :: "char \<Rightarrow> string \<Rightarrow> string list" where
  "py_split_sep sep s = split_sep_acc sep [] s"

text \<open>
  \<^verbatim>\<open>int(tok)\<close> and \<^verbatim>\<open>float(tok)\<close> on a token without whitespace. The model reads plain
  decimal literals: an optional sign, ASCII digits and, for a float, an optional decimal
  point with digits on at least one side; the value of a float literal is its exact decimal
  value. Every other token raises ValueError here (the exponent, underscore, infinity and
  NaN forms that Python also reads are left out).
\<close>

definition is_digit :: "char \<Rightarrow> bool" where
  "is_digit c = (48 \<le> (of_char c :: nat) \<and> (of_char c :: nat) \<le> 57)"

definition digits_val :: "string \<Rightarrow> nat" where
  "digits_val ds = foldl (\<lambda>a c. 10 * a + ((of_char c :: nat) - 48)) 0 ds"

fun strip_sign :: "string \<Rightarrow> bool \<times> string" where
  "strip_sign [] = (False, [])"
| "strip_sign (c # cs) =
     (if c = CHR ''-'' then (True, cs) else if c = CHR ''+'' then (False, cs) else (False, c # cs))"

definition int_of_str :: "string \<Rightarrow> error + int" where
  "int_of_str tok =
     (case strip_sign tok of (neg, ds) \<Rightarrow>
        if ds \<noteq> [] \<and> list_all is_digit ds
        then Inr (if neg then - int (digits_val ds) else int (digits_val ds))
        else Inl ValueError)"

definition float_of_str :: "string \<Rightarrow> error + pynum" where
  "float_of_str tok =
     (case strip_sign tok of (neg, body) \<Rightarrow>
        let ip = takeWhile is_digit body; rest = dropWhile is_digit body;
            fp = (case rest of [] \<Rightarrow> [] | c # cs \<Rightarrow> cs);
            ok = (case rest of [] \<Rightarrow> ip \<noteq> []
                  | c # cs \<Rightarrow> c = CHR ''.'' \<and> list_all is_digit cs \<and> (ip \<noteq> [] \<or> cs \<noteq> []));
            v = real (digits_val ip) + real (digits_val fp) / 10 ^ length fp
        in if ok then Inr (PFloat (if neg then - v else v)) else Inl ValueError)"

section \<open>Parsing annotations\<close>

text \<open>
  \<^verbatim>\<open>CenteredBoundingBox.from_str\<close>. Python's \<^verbatim>\<open>None\<close> is a value the method returns, so
  the result is an option inside the error sum: \<open>Inr None\<close> is a returned \<^verbatim>\<open>None\<close>,
  \<open>Inl e\<close> a raised exception. The bare \<^verbatim>\<open>return\<close> of the second check returns
  \<^verbatim>\<open>None\<close> as well.
\<close>

definition CenteredBoundingBox_from_str :: "string \<Rightarrow> error + CenteredBoundingBox option" where
  "CenteredBoundingBox_from_str centered_bbox_str =
     (let bbox_data = py_split centered_bbox_str in
      if length bbox_data = 0 then Inr None
      else if length bbox_data \<noteq> 5 then Inr None
      else
        (case int_of_str (bbox_data ! 0) of Inl e \<Rightarrow> Inl e | Inr cid \<Rightarrow>
        (case float_of_str (bbox_data ! 1) of Inl e \<Rightarrow> Inl e | Inr cx \<Rightarrow>
        (case float_of_str (bbox_data ! 2) of Inl e \<Rightarrow> Inl e | Inr cy \<Rightarrow>
        (case float_of_str (bbox_data ! 3) of Inl e \<Rightarrow> Inl e | Inr w \<Rightarrow>
        (case float_of_str (bbox_data ! 4) of Inl e \<Rightarrow> Inl e | Inr h \<Rightarrow>
           Inr (Some \<lparr>class_id = cid, center_x = cx, center_y = cy,
                      width = w, height = h\<rparr>)))))))"

text \<open>
  The stored list is whatever the comprehension of \<^verbatim>\<open>MASATIImageAnnotation.from_str\<close>
  collects, so its entries are results of \<^verbatim>\<open>CenteredBoundingBox.from_str\<close>: a box or
  \<^verbatim>\<open>None\<close>.
\<close>

record MASATIImageAnnotation =
  raw_annotations :: "CenteredBoundingBox option list"

datatype str_or_list = Str string | StrList "string list"

text \<open>The list comprehension: lines equal to the empty string are filtered out.\<close>

fun parse_lines :: "string list \<Rightarrow> error + CenteredBoundingBox option list" where
  "parse_lines [] = Inr []"
| "parse_lines (bbox_repr # rest) =
     (if bbox_repr \<noteq> [] then
        (case CenteredBoundingBox_from_str bbox_repr of
           Inl e \<Rightarrow> Inl e
         | Inr b \<Rightarrow> (case parse_lines rest of Inl e \<Rightarrow> Inl e | Inr bs \<Rightarrow> Inr (b # bs)))
      else parse_lines rest)"

definition MASATIImageAnnotation_from_str :: "str_or_list \<Rightarrow> error + MASATIImageAnnotation" where
  "MASATIImageAnnotation_from_str image_annotations =
     (let lines = (case image_annotations of
                     Str s \<Rightarrow> py_split_sep (CHR 0x0A) s
                   | StrList ls \<Rightarrow> ls)
      in case parse_lines lines of
           Inl e \<Rightarrow> Inl e
         | Inr bs \<Rightarrow> Inr \<lparr>raw_annotations = bs\<rparr>)"

definition centered_annotations :: "MASATIImageAnnotation \<Rightarrow> CenteredBoundingBox option list" where
  "centered_annotations self = raw_annotations self"

text \<open>
  The property \<^verbatim>\<open>annotations\<close> calls \<^verbatim>\<open>to_bbox\<close> on every stored entry; on a stored
  \<^verbatim>\<open>None\<close> the attribute lookup raises AttributeError.
\<close>

fun to_bbox_all :: "CenteredBoundingBox option list \<Rightarrow> error + BoundingBox list" where
  "to_bbox_all [] = Inr []"
| "to_bbox_all (None # rest) = Inl AttributeError"
| "to_bbox_all (Some centered_bbox # rest) =
     (case to_bbox_all rest of Inl e \<Rightarrow> Inl e | Inr bs \<Rightarrow> Inr (to_bbox centered_bbox # bs))"

definition MASATIImageAnnotation_annotations :: "MASATIImageAnnotation \<Rightarrow> error + BoundingBox list" where
  "MASATIImageAnnotation_annotations self = to_bbox_all (raw_annotations self)"

section \<open>Arrays and the mask\<close>

text \<open>
  An array is its shape and its elements, read by index (one number per axis). Only valid
  indices carry meaning.
\<close>

record 'a ndarray =
  shape :: "nat list"
  elems :: "nat list \<Rightarrow> 'a"

record 'a Annotation2Mask =
  img :: "'a ndarray"
  annotations :: MASATIImageAnnotation

text \<open>
  \<^verbatim>\<open>a.transpose(2, 0, 1)\<close>: the new axes are the old axes 2, 0, 1, so the element at
  \<open>[i, j, k]\<close> of the result is the element at \<open>[j, k, i]\<close> of \<open>a\<close>. On an array that
  does not have three axes NumPy raises ValueError (axes don't match array).
\<close>

definition transpose_2_0_1 :: "'a ndarray \<Rightarrow> error + 'a ndarray" where
  "transpose_2_0_1 a =
     (case shape a of
        [s0, s1, s2] \<Rightarrow>
          Inr \<lparr>shape = [s2, s0, s1],
               elems = (\<lambda>idx. case idx of [i, j, k] \<Rightarrow> elems a [j, k, i] | _ \<Rightarrow> elems a idx)\<rparr>
      | _ \<Rightarrow> Inl ValueError)"

text \<open>
  \<^verbatim>\<open>Annotation2Mask.__post_init__\<close>, which the generated constructor runs: the result is
  the constructed object or the exception. \<^verbatim>\<open>shape[0]\<close> on an array without axes raises
  IndexError.
\<close>

definition post_init :: "'a Annotation2Mask \<Rightarrow> error + 'a Annotation2Mask" where
  "post_init self =
     (let s = shape (img self) in
      if length s > 3 then Inl ValueError
      else if s = [] then Inl IndexError
      else if hd s \<noteq> 3 \<and> last s \<noteq> 3 then Inl ValueError
      else if last s = 3 then
        (case transpose_2_0_1 (img self) of
           Inl e \<Rightarrow> Inl e
         | Inr t \<Rightarrow> Inr (self\<lparr>img := t\<rparr>))
      else Inr self)"

definition zeros :: "nat list \<Rightarrow> 8 word ndarray" where
  "zeros sh = \<lparr>shape = sh, elems = (\<lambda>idx. 0)\<rparr>"

text \<open>
  A slice bound on an axis of length \<open>n\<close>: a negative bound counts from the end, and the
  result is clamped to \<open>0..n\<close>.
\<close>

definition slice_bound :: "int \<Rightarrow> nat \<Rightarrow> nat" where
  "slice_bound i n =
     (if i < 0 then (if i + int n < 0 then 0 else nat (i + int n))
      else if int n < i then n else nat i)"

text \<open>A slice bound must be an int: NumPy raises TypeError on a float.\<close>

fun as_index :: "pynum \<Rightarrow> error + int" where
  "as_index (PInt i) = Inr i"
| "as_index (PFloat x) = Inl TypeError"

text \<open>
  \<^verbatim>\<open>mask[y0:y1, x0:x1] = v\<close>: two slices need an array of at least two axes (IndexError
  otherwise; the array is written \<open>mask_arr\<close>, \<open>mask\<close> being a constant of the word library); every element whose first two indices fall in the slices is set.
\<close>

definition setitem_slices ::
    "8 word ndarray \<Rightarrow> pynum \<Rightarrow> pynum \<Rightarrow> pynum \<Rightarrow> pynum \<Rightarrow> 8 word \<Rightarrow> error + 8 word ndarray" where
  "setitem_slices mask_arr y0 y1 x0 x1 v =
     (case shape mask_arr of
        h # w # _ \<Rightarrow>
          (case (as_index y0, as_index y1, as_index x0, as_index x1) of
             (Inr a, Inr b, Inr c, Inr d) \<Rightarrow>
               Inr (mask_arr\<lparr>elems := (\<lambda>idx. case idx of
                      r # q # _ \<Rightarrow>
                        if slice_bound a h \<le> r \<and> r < slice_bound b h \<and>
                           slice_bound c w \<le> q \<and> q < slice_bound d w
                        then v else elems mask_arr idx
                    | _ \<Rightarrow> elems mask_arr idx)\<rparr>)
           | _ \<Rightarrow> Inl TypeError)
      | _ \<Rightarrow> Inl IndexError)"

text \<open>
  The loop of \<^verbatim>\<open>create_mask\<close> over the corner boxes. \<^verbatim>\<open>self.img.shape[2]\<close> raises
  IndexError on an image of fewer than three axes.
\<close>

fun draw_bboxes :: "nat list \<Rightarrow> 8 word ndarray \<Rightarrow> BoundingBox list \<Rightarrow> error + 8 word ndarray" where
  "draw_bboxes img_shape mask_arr [] = Inr mask_arr"
| "draw_bboxes img_shape mask_arr (relative_bbox # rest) =
     (if length img_shape < 3 then Inl IndexError
      else
        let bbox = BoundingBox_to_absolute relative_bbox (int (img_shape ! 2)) (int (img_shape ! 1))
        in case setitem_slices mask_arr (min_y bbox) (max_y bbox) (min_x bbox) (max_x bbox) 255 of
             Inl e \<Rightarrow> Inl e
           | Inr mask_arr' \<Rightarrow> draw_bboxes img_shape mask_arr' rest)"

definition create_mask :: "'a Annotation2Mask \<Rightarrow> error + 8 word ndarray" where
  "create_mask self =
     (let mask_arr = zeros (tl (shape (img self))) in
      case MASATIImageAnnotation_annotations (annotations self) of
        Inl e \<Rightarrow> Inl e
      | Inr bboxes \<Rightarrow> draw_bboxes (shape (img self)) mask_arr bboxes)"

text \<open>The valid indices of an array, and the pixels of a mask that hold the foreground value.\<close>

definition valid_index :: "nat list \<Rightarrow> nat list \<Rightarrow> bool" where
  "valid_index sh idx = list_all2 (<) idx sh"

definition foreground :: "8 word ndarray \<Rightarrow> nat list set" where
  "foreground mask_arr = {idx. valid_index (shape mask_arr) idx \<and> elems mask_arr idx = 255}"

text \<open>
  Two corner boxes agree up to one unit: the same class and every coordinate within 1 of
  its counterpart.
\<close>

definition round_trip_close :: "BoundingBox \<Rightarrow> BoundingBox \<Rightarrow> bool" where
  "round_trip_close a b =
     (class_id a = class_id b \<and>
      \<bar>val (min_x a) - val (min_x b)\<bar> \<le> 1 \<and> \<bar>val (max_x a) - val (max_x b)\<bar> \<le> 1 \<and>
      \<bar>val (min_y a) - val (min_y b)\<bar> \<le> 1 \<and> \<bar>val (max_y a) - val (max_y b)\<bar> \<le> 1)"

text \<open>
  A corner box in pixel units reaches outside an image of width \<open>W\<close> and height \<open>H\<close>
  when one of its x coordinates is below 0 or above \<open>W\<close>, or one of its y coordinates is
  below 0 or above \<open>H\<close>. (A maximum equal to \<open>W\<close> or \<open>H\<close> is inside: the painted
  rectangle excludes its upper bounds.)
\<close>

definition outside_extent :: "BoundingBox \<Rightarrow> nat \<Rightarrow> nat \<Rightarrow> bool" where
  "outside_extent b W H =
     (val (min_x b) < 0 \<or> real W < val (min_x b) \<or> val (max_x b) < 0 \<or> real W < val (max_x b) \<or>
      val (min_y b) < 0 \<or> real H < val (min_y b) \<or> val (max_y b) < 0 \<or> real H < val (max_y b))"

text \<open>
  The mask of the scenario with a 100 by 50 image: 50 rows of 100 pixels, foreground on
  rows 15 to 34 and columns 40 to 59.
\<close>

definition scenario_mask :: "8 word ndarray" where
  "scenario_mask =
     \<lparr>shape = [50, 100],
      elems = (\<lambda>idx. case idx of
                 r # q # _ \<Rightarrow> if 15 \<le> r \<and> r < 35 \<and> 40 \<le> q \<and> q < 60 then 255 else 0
               | _ \<Rightarrow> 0)\<rparr>"

section \<open>Binary64 arithmetic\<close>



text \<open>
  The arithmetic of the two conversions with a rounding \<open>rnd\<close> applied where Python
  rounds: an int operand of a mixed operation is first converted to a float; a sum or
  difference of two ints stays an exact int; \<^verbatim>\<open>x / 2\<close> returns the rounded quotient.
  With \<open>rnd\<close> the identity these are the exact operations above, with
  \<open>round_binary64\<close> they are the operations the interpreter performs.
\<close>

fun to_float :: "(real \<Rightarrow> real) \<Rightarrow> pynum \<Rightarrow> real" where
  "to_float rnd (PInt i) = rnd (real_of_int i)"
| "to_float rnd (PFloat x) = x"

fun py_add_rounded :: "(real \<Rightarrow> real) \<Rightarrow> pynum \<Rightarrow> pynum \<Rightarrow> pynum" where
  "py_add_rounded rnd (PInt i) (PInt j) = PInt (i + j)"
| "py_add_rounded rnd x y = PFloat (rnd (to_float rnd x + to_float rnd y))"

fun py_sub_rounded :: "(real \<Rightarrow> real) \<Rightarrow> pynum \<Rightarrow> pynum \<Rightarrow> pynum" where
  "py_sub_rounded rnd (PInt i) (PInt j) = PInt (i - j)"
| "py_sub_rounded rnd x y = PFloat (rnd (to_float rnd x - to_float rnd y))"

definition py_half_rounded :: "(real \<Rightarrow> real) \<Rightarrow> pynum \<Rightarrow> pynum" where
  "py_half_rounded rnd x = PFloat (rnd (val x / 2))"

definition to_bbox_rounded :: "(real \<Rightarrow> real) \<Rightarrow> CenteredBoundingBox \<Rightarrow> BoundingBox" where
  "to_bbox_rounded rnd self =
     \<lparr>class_id = class_id self,
      min_x = py_sub_rounded rnd (center_x self) (py_half_rounded rnd (width self)),
      max_x = py_add_rounded rnd (center_x self) (py_half_rounded rnd (width self)),
      min_y = py_sub_rounded rnd (center_y self) (py_half_rounded rnd (height self)),
      max_y = py_add_rounded rnd (center_y self) (py_half_rounded rnd (height self))\<rparr>"

definition to_centered_bbox_rounded ::
    "(real \<Rightarrow> real) \<Rightarrow> BoundingBox \<Rightarrow> CenteredBoundingBox" where
  "to_centered_bbox_rounded rnd self =
     \<lparr>class_id = class_id self,
      center_x = py_half_rounded rnd (py_add_rounded rnd (min_x self) (max_x self)),
      center_y = py_half_rounded rnd (py_add_rounded rnd (min_y self) (max_y self)),
      width = py_sub_rounded rnd (max_x self) (min_x self),
      height = py_sub_rounded rnd (max_y self) (min_y self)\<rparr>"

section \<open>Properties of the box geometry\<close>

lemma py_sub_float: "py_sub x (PFloat y) = PFloat (val x - y)"
  by (cases x) simp_all

lemma py_add_float: "py_add x (PFloat y) = PFloat (val x + y)"
  by (cases x) simp_all

text \<open>Whatever the types of the fields of a center box, its corner form holds floats.\<close>

lemma to_bbox_fields:
  "to_bbox c = \<lparr>class_id = class_id c,
      min_x = PFloat (val (center_x c) - val (width c) / 2),
      max_x = PFloat (val (center_x c) + val (width c) / 2),
      min_y = PFloat (val (center_y c) - val (height c) / 2),
      max_y = PFloat (val (center_y c) + val (height c) / 2)\<rparr>"
  by (simp add: to_bbox_def py_half_def py_sub_float py_add_float)

lemma half_open_not_int:
  fixes x :: real
  assumes "- (1/2) \<le> x" "x < 0"
  shows "x \<notin> \<int>"
proof
  assume "x \<in> \<int>"
  then obtain k :: int where k: "x = of_int k" by (rule Ints_cases)
  from assms k have "k < 0" by simp
  moreover from assms k have "- 1 < k" by linarith
  ultimately show False by simp
qed

lemma trunc_close: "\<bar>real_of_int (trunc_toward_zero x) - x\<bar> \<le> 1"
  unfolding trunc_toward_zero_def by (simp; linarith)

text \<open>
  Claim C8. For a box of either form, \<open>is_relative\<close> holds exactly when each of the four
  geometric fields lies in the closed interval from 0 to 1 (the class id plays no part),
  and \<open>is_absolute\<close> is its negation. In particular a box whose fields are all 0 or 1 is
  relative, and so not absolute, whatever it was meant to be.
\<close>

theorem is_relative_iff_unit_interval:
  "(BoundingBox_is_relative b \<longleftrightarrow>
      (0 \<le> val (min_x b) \<and> val (min_x b) \<le> 1) \<and> (0 \<le> val (max_x b) \<and> val (max_x b) \<le> 1) \<and>
      (0 \<le> val (min_y b) \<and> val (min_y b) \<le> 1) \<and> (0 \<le> val (max_y b) \<and> val (max_y b) \<le> 1)) \<and>
   (CenteredBoundingBox_is_relative c \<longleftrightarrow>
      (0 \<le> val (center_x c) \<and> val (center_x c) \<le> 1) \<and>
      (0 \<le> val (center_y c) \<and> val (center_y c) \<le> 1) \<and>
      (0 \<le> val (width c) \<and> val (width c) \<le> 1) \<and>
      (0 \<le> val (height c) \<and> val (height c) \<le> 1)) \<and>
   BoundingBox_is_absolute b = (\<not> BoundingBox_is_relative b) \<and>
   CenteredBoundingBox_is_absolute c = (\<not> CenteredBoundingBox_is_relative c) \<and>
   ((\<forall>f \<in> {min_x b, max_x b, min_y b, max_y b}. val f = 0 \<or> val f = 1) \<longrightarrow>
      BoundingBox_is_relative b \<and> \<not> BoundingBox_is_absolute b) \<and>
   ((\<forall>f \<in> {center_x c, center_y c, width c, height c}. val f = 0 \<or> val f = 1) \<longrightarrow>
      CenteredBoundingBox_is_relative c \<and> \<not> CenteredBoundingBox_is_absolute c)"
  unfolding BoundingBox_is_relative_def CenteredBoundingBox_is_relative_def
    BoundingBox_is_absolute_def CenteredBoundingBox_is_absolute_def check_is_relative_def
  by auto

theorem is_relative_iff_unit_interval_witness:
  "BoundingBox_is_relative
     \<lparr>class_id = 0, min_x = PInt 0, max_x = PInt 1, min_y = PInt 0, max_y = PInt 1\<rparr> \<and>
   \<not> BoundingBox_is_absolute
     \<lparr>class_id = 0, min_x = PInt 0, max_x = PInt 1, min_y = PInt 0, max_y = PInt 1\<rparr> \<and>
   CenteredBoundingBox_is_relative
     \<lparr>class_id = 0, center_x = PInt 1, center_y = PInt 1, width = PInt 0, height = PInt 1\<rparr> \<and>
   \<not> CenteredBoundingBox_is_absolute
     \<lparr>class_id = 0, center_x = PInt 1, center_y = PInt 1, width = PInt 0, height = PInt 1\<rparr>"
  using is_relative_iff_unit_interval
    [of "\<lparr>class_id = 0, min_x = PInt 0, max_x = PInt 1, min_y = PInt 0, max_y = PInt 1\<rparr>"
        "\<lparr>class_id = 0, center_x = PInt 1, center_y = PInt 1, width = PInt 0, height = PInt 1\<rparr>"]
  by simp

text \<open>
  Claim C7. For every image width and height, \<open>to_absolute\<close> on a box that is already
  absolute (by the computed check) returns a box with the same fields, and \<open>to_relative\<close>
  on a box that is already relative returns a box with the same fields, without raising;
  this holds for the corner form and for the center form.
\<close>

theorem conversion_idempotent:
  "(BoundingBox_is_absolute b \<longrightarrow> BoundingBox_to_absolute b W H = b) \<and>
   (BoundingBox_is_relative b \<longrightarrow> BoundingBox_to_relative b W H = Inr b) \<and>
   (CenteredBoundingBox_is_absolute c \<longrightarrow> CenteredBoundingBox_to_absolute c W H = c) \<and>
   (CenteredBoundingBox_is_relative c \<longrightarrow> CenteredBoundingBox_to_relative c W H = Inr c)"
  by (simp add: BoundingBox_to_absolute_def BoundingBox_to_relative_def
      CenteredBoundingBox_to_absolute_def CenteredBoundingBox_to_relative_def)

theorem conversion_idempotent_witness:
  "BoundingBox_to_absolute
     \<lparr>class_id = 0, min_x = PInt 40, max_x = PInt 60, min_y = PInt 15, max_y = PInt 35\<rparr> 100 50 =
     \<lparr>class_id = 0, min_x = PInt 40, max_x = PInt 60, min_y = PInt 15, max_y = PInt 35\<rparr> \<and>
   CenteredBoundingBox_to_absolute
     \<lparr>class_id = 0, center_x = PInt 50, center_y = PInt 25, width = PInt 20, height = PInt 20\<rparr> 100 50 =
     \<lparr>class_id = 0, center_x = PInt 50, center_y = PInt 25, width = PInt 20, height = PInt 20\<rparr> \<and>
   BoundingBox_to_relative
     \<lparr>class_id = 0, min_x = PFloat (2/5), max_x = PFloat (3/5), min_y = PFloat (3/10),
      max_y = PFloat (7/10)\<rparr> 0 0 =
     Inr \<lparr>class_id = 0, min_x = PFloat (2/5), max_x = PFloat (3/5), min_y = PFloat (3/10),
          max_y = PFloat (7/10)\<rparr> \<and>
   CenteredBoundingBox_to_relative
     \<lparr>class_id = 0, center_x = PFloat (1/2), center_y = PFloat (1/2), width = PFloat (1/5),
      height = PFloat (2/5)\<rparr> 0 0 =
     Inr \<lparr>class_id = 0, center_x = PFloat (1/2), center_y = PFloat (1/2), width = PFloat (1/5),
          height = PFloat (2/5)\<rparr>"
proof -
  let ?b = "\<lparr>class_id = 0, min_x = PInt 40, max_x = PInt 60, min_y = PInt 15, max_y = PInt 35\<rparr>"
  let ?c = "\<lparr>class_id = 0, center_x = PInt 50, center_y = PInt 25, width = PInt 20,
             height = PInt 20\<rparr>"
  let ?rb = "\<lparr>class_id = 0, min_x = PFloat (2/5), max_x = PFloat (3/5), min_y = PFloat (3/10),
              max_y = PFloat (7/10)\<rparr>"
  let ?rc = "\<lparr>class_id = 0, center_x = PFloat (1/2), center_y = PFloat (1/2),
              width = PFloat (1/5), height = PFloat (2/5)\<rparr>"
  have "BoundingBox_is_absolute ?b"
    by (simp add: BoundingBox_is_absolute_def BoundingBox_is_relative_def check_is_relative_def)
  moreover have "CenteredBoundingBox_is_absolute ?c"
    by (simp add: CenteredBoundingBox_is_absolute_def CenteredBoundingBox_is_relative_def
        check_is_relative_def)
  moreover have "BoundingBox_is_relative ?rb"
    by (simp add: BoundingBox_is_relative_def check_is_relative_def)
  moreover have "CenteredBoundingBox_is_relative ?rc"
    by (simp add: CenteredBoundingBox_is_relative_def check_is_relative_def)
  ultimately show ?thesis
    using conversion_idempotent [of ?b 100 50 ?c] conversion_idempotent [of ?rb 0 0 ?rc]
    by blast
qed

subsection \<open>Round trip between the two forms\<close>

text \<open>The exact conversions are the rounded ones with the rounding left out.\<close>

lemma py_add_unrounded: "py_add_rounded (\<lambda>x. x) x y = py_add x y"
  by (cases x; cases y) simp_all

lemma py_sub_unrounded: "py_sub_rounded (\<lambda>x. x) x y = py_sub x y"
  by (cases x; cases y) simp_all

lemma py_half_unrounded: "py_half_rounded (\<lambda>x. x) x = py_half x"
  by (simp add: py_half_rounded_def py_half_def)

lemma conversions_unrounded:
  "to_bbox_rounded (\<lambda>x. x) c = to_bbox c"
  "to_centered_bbox_rounded (\<lambda>x. x) b = to_centered_bbox b"
  by (simp_all add: to_bbox_rounded_def to_bbox_def to_centered_bbox_rounded_def
      to_centered_bbox_def py_add_unrounded py_sub_unrounded py_half_unrounded)

















subsection \<open>Boxes near the origin\<close>

text \<open>
  Claim C10. Take a relative center box whose center is closer to the origin than half its
  size on some axis. Its corner form then has a negative minimum on that axis, which lies
  in the interval from -1/2 to 0 and so is not an integer; the corner form is therefore not
  relative, that is, absolute; and \<open>to_absolute\<close> returns it unchanged for every image
  width and height, all four coordinates still floats.
\<close>

theorem to_bbox_near_origin_stays_fractional:
  assumes rel: "CenteredBoundingBox_is_relative c"
    and near: "val (center_x c) < val (width c) / 2 \<or> val (center_y c) < val (height c) / 2"
  shows "((val (min_x (to_bbox c)) < 0 \<and> val (min_x (to_bbox c)) \<notin> \<int>) \<or>
          (val (min_y (to_bbox c)) < 0 \<and> val (min_y (to_bbox c)) \<notin> \<int>)) \<and>
         \<not> BoundingBox_is_relative (to_bbox c) \<and>
         BoundingBox_is_absolute (to_bbox c) \<and>
         BoundingBox_to_absolute (to_bbox c) W H = to_bbox c \<and>
         (\<exists>x0 x1 y0 y1. BoundingBox_to_absolute (to_bbox c) W H =
            \<lparr>class_id = class_id c, min_x = PFloat x0, max_x = PFloat x1,
             min_y = PFloat y0, max_y = PFloat y1\<rparr>)"
proof -
  from rel have b: "0 \<le> val (center_x c)" "0 \<le> val (center_y c)"
      "val (width c) \<le> 1" "val (height c) \<le> 1"
    by (simp_all add: CenteredBoundingBox_is_relative_def check_is_relative_def)
  have neg: "(val (min_x (to_bbox c)) < 0 \<and> val (min_x (to_bbox c)) \<notin> \<int>) \<or>
          (val (min_y (to_bbox c)) < 0 \<and> val (min_y (to_bbox c)) \<notin> \<int>)"
  proof -
    from near show ?thesis
    proof
      assume "val (center_x c) < val (width c) / 2"
      with b have "- (1/2) \<le> val (center_x c) - val (width c) / 2"
        "val (center_x c) - val (width c) / 2 < 0" by simp_all
      then show ?thesis using half_open_not_int by (simp add: to_bbox_fields)
    next
      assume "val (center_y c) < val (height c) / 2"
      with b have "- (1/2) \<le> val (center_y c) - val (height c) / 2"
        "val (center_y c) - val (height c) / 2 < 0" by simp_all
      then show ?thesis using half_open_not_int by (simp add: to_bbox_fields)
    qed
  qed
  then have nrel: "\<not> BoundingBox_is_relative (to_bbox c)"
    by (auto simp add: BoundingBox_is_relative_def check_is_relative_def)
  then have same: "BoundingBox_to_absolute (to_bbox c) W H = to_bbox c"
    by (simp add: BoundingBox_to_absolute_def BoundingBox_is_absolute_def)
  have "\<exists>x0 x1 y0 y1. BoundingBox_to_absolute (to_bbox c) W H =
            \<lparr>class_id = class_id c, min_x = PFloat x0, max_x = PFloat x1,
             min_y = PFloat y0, max_y = PFloat y1\<rparr>"
    unfolding same by (subst to_bbox_fields) blast
  with neg nrel same show ?thesis by (simp add: BoundingBox_is_absolute_def)
qed

theorem to_bbox_near_origin_stays_fractional_witness:
  "val (min_x (to_bbox \<lparr>class_id = 0, center_x = PFloat (1/10), center_y = PFloat (1/2),
                        width = PFloat (2/5), height = PFloat (1/5)\<rparr>)) < 0 \<and>
   BoundingBox_is_absolute
     (to_bbox \<lparr>class_id = 0, center_x = PFloat (1/10), center_y = PFloat (1/2),
               width = PFloat (2/5), height = PFloat (1/5)\<rparr>) \<and>
   BoundingBox_to_absolute
     (to_bbox \<lparr>class_id = 0, center_x = PFloat (1/10), center_y = PFloat (1/2),
               width = PFloat (2/5), height = PFloat (1/5)\<rparr>) 100 50 =
   to_bbox \<lparr>class_id = 0, center_x = PFloat (1/10), center_y = PFloat (1/2),
             width = PFloat (2/5), height = PFloat (1/5)\<rparr>"
proof -
  let ?c = "\<lparr>class_id = 0, center_x = PFloat (1/10), center_y = PFloat (1/2),
             width = PFloat (2/5), height = PFloat (1/5)\<rparr>"
  have rel: "CenteredBoundingBox_is_relative ?c"
    by (simp add: CenteredBoundingBox_is_relative_def check_is_relative_def)
  have near: "val (center_x ?c) < val (width ?c) / 2 \<or> val (center_y ?c) < val (height ?c) / 2"
    by simp
  have "val (min_x (to_bbox ?c)) < 0"
    by (simp add: to_bbox_fields)
  with to_bbox_near_origin_stays_fractional [OF rel near, of 100 50] show ?thesis by blast
qed

text \<open>
  Claim C4, as the code has it. Let \<open>W\<close> and \<open>H\<close> be positive and let \<open>b\<close> be a corner box
  that is absolute by the computed check and whose coordinates lie inside the image, from 0
  to \<open>W\<close> on the x axis and from 0 to \<open>H\<close> on the y axis. Then \<open>to_relative\<close> returns a
  box, and \<open>to_absolute\<close> of that box has the class of \<open>b\<close> and every coordinate within 1
  unit of the coordinate of \<open>b\<close>.
\<close>

theorem relative_absolute_round_trip:
  assumes W: "0 < W" and H: "0 < H"
    and ab: "BoundingBox_is_absolute b"
    and x0: "0 \<le> val (min_x b)" "val (min_x b) \<le> real_of_int W"
    and x1: "0 \<le> val (max_x b)" "val (max_x b) \<le> real_of_int W"
    and y0: "0 \<le> val (min_y b)" "val (min_y b) \<le> real_of_int H"
    and y1: "0 \<le> val (max_y b)" "val (max_y b) \<le> real_of_int H"
  shows "\<exists>r. BoundingBox_to_relative b W H = Inr r \<and>
             round_trip_close (BoundingBox_to_absolute r W H) b"
proof -
  let ?r = "\<lparr>class_id = class_id b,
             min_x = PFloat (val (min_x b) / real_of_int W),
             max_x = PFloat (val (max_x b) / real_of_int W),
             min_y = PFloat (val (min_y b) / real_of_int H),
             max_y = PFloat (val (max_y b) / real_of_int H)\<rparr>"
  from W H ab have r: "BoundingBox_to_relative b W H = Inr ?r"
    by (simp add: BoundingBox_to_relative_def BoundingBox_is_absolute_def py_truediv_def)
  from W H x0 x1 y0 y1 have rel: "BoundingBox_is_relative ?r"
    by (simp add: BoundingBox_is_relative_def check_is_relative_def)
  from W H rel have "round_trip_close (BoundingBox_to_absolute ?r W H) b"
    using trunc_close [of "val (min_x b)"] trunc_close [of "val (max_x b)"]
      trunc_close [of "val (min_y b)"] trunc_close [of "val (max_y b)"]
    by (simp add: round_trip_close_def BoundingBox_to_absolute_def BoundingBox_is_absolute_def)
  with r show ?thesis by blast
qed

theorem relative_absolute_round_trip_witness:
  "\<exists>r. BoundingBox_to_relative
         \<lparr>class_id = 0, min_x = PInt 40, max_x = PInt 60, min_y = PInt 15, max_y = PInt 35\<rparr>
         100 50 = Inr r \<and>
       round_trip_close (BoundingBox_to_absolute r 100 50)
         \<lparr>class_id = 0, min_x = PInt 40, max_x = PInt 60, min_y = PInt 15, max_y = PInt 35\<rparr>"
proof -
  let ?b = "\<lparr>class_id = 0, min_x = PInt 40, max_x = PInt 60, min_y = PInt 15, max_y = PInt 35\<rparr>"
  have ab: "BoundingBox_is_absolute ?b"
    by (simp add: BoundingBox_is_absolute_def BoundingBox_is_relative_def check_is_relative_def)
  show ?thesis
    by (rule relative_absolute_round_trip [of 100 50 ?b, OF _ _ ab]) simp_all
qed

text \<open>
  The claim as written fails in two ways. A pixel box with corners 0 and 1 is classified
  as relative, so \<open>to_relative\<close> leaves it alone and \<open>to_absolute\<close> scales it to the whole
  image. A pixel box that reaches beyond the image is divided to coordinates above 1, which
  \<open>to_absolute\<close> then takes for pixels and leaves alone.
\<close>

theorem relative_absolute_round_trip_counterexample:
  "BoundingBox_to_relative
     \<lparr>class_id = 0, min_x = PInt 0, max_x = PInt 1, min_y = PInt 0, max_y = PInt 1\<rparr> 100 100 =
     Inr \<lparr>class_id = 0, min_x = PInt 0, max_x = PInt 1, min_y = PInt 0, max_y = PInt 1\<rparr> \<and>
   BoundingBox_to_absolute
     \<lparr>class_id = 0, min_x = PInt 0, max_x = PInt 1, min_y = PInt 0, max_y = PInt 1\<rparr> 100 100 =
     \<lparr>class_id = 0, min_x = PInt 0, max_x = PInt 100, min_y = PInt 0, max_y = PInt 100\<rparr> \<and>
   \<not> round_trip_close
     \<lparr>class_id = 0, min_x = PInt 0, max_x = PInt 100, min_y = PInt 0, max_y = PInt 100\<rparr>
     \<lparr>class_id = 0, min_x = PInt 0, max_x = PInt 1, min_y = PInt 0, max_y = PInt 1\<rparr> \<and>
   BoundingBox_to_relative
     \<lparr>class_id = 0, min_x = PInt 200, max_x = PInt 300, min_y = PInt 10, max_y = PInt 20\<rparr> 100 100 =
     Inr \<lparr>class_id = 0, min_x = PFloat 2, max_x = PFloat 3, min_y = PFloat (1/10),
          max_y = PFloat (1/5)\<rparr> \<and>
   BoundingBox_to_absolute
     \<lparr>class_id = 0, min_x = PFloat 2, max_x = PFloat 3, min_y = PFloat (1/10),
      max_y = PFloat (1/5)\<rparr> 100 100 =
     \<lparr>class_id = 0, min_x = PFloat 2, max_x = PFloat 3, min_y = PFloat (1/10),
      max_y = PFloat (1/5)\<rparr> \<and>
   \<not> round_trip_close
     \<lparr>class_id = 0, min_x = PFloat 2, max_x = PFloat 3, min_y = PFloat (1/10),
      max_y = PFloat (1/5)\<rparr>
     \<lparr>class_id = 0, min_x = PInt 200, max_x = PInt 300, min_y = PInt 10, max_y = PInt 20\<rparr>"
  by (simp add: BoundingBox_to_relative_def BoundingBox_to_absolute_def BoundingBox_is_absolute_def
      BoundingBox_is_relative_def check_is_relative_def py_truediv_def round_trip_close_def
      trunc_toward_zero_def)

section \<open>Properties of the parser\<close>

lemmas parse_defs = CenteredBoundingBox_from_str_def py_split_def isspace_def float_of_str_def
  int_of_str_def is_digit_def digits_val_def

text \<open>
  Claim C1 asks that a line whose token count is neither 0 nor 5 fail with an error. The
  docstring of \<^verbatim>\<open>from_str\<close> promises a ValueError for a string that is "not empty nor a
  valid representation", but the second check ends in a bare \<^verbatim>\<open>return\<close>: on the line of
  three tokens the method returns \<^verbatim>\<open>None\<close> and raises nothing.
\<close>

theorem from_str_three_tokens_returns_None:
  "CenteredBoundingBox_from_str ''0 0.5 0.5'' = Inr None"
  by (simp add: CenteredBoundingBox_from_str_def py_split_def isspace_def)

text \<open>
  Claim C2 asks that blank lines and lines without a box leave no entry, so that every
  stored entry is a box. The comprehension filters only lines equal to the empty string. On
  a text whose second line is a single space the stored list ends in \<^verbatim>\<open>None\<close>, and the
  property \<^verbatim>\<open>annotations\<close> then raises AttributeError; a line of three tokens is stored as
  \<^verbatim>\<open>None\<close> too.
\<close>

theorem from_str_stores_None:
  "MASATIImageAnnotation_from_str (Str (''0 0.5 0.5 0.2 0.4'' @ [CHR 0x0A] @ '' '')) =
     Inr \<lparr>raw_annotations =
       [Some \<lparr>class_id = 0, center_x = PFloat (1/2), center_y = PFloat (1/2),
              width = PFloat (1/5), height = PFloat (2/5)\<rparr>, None]\<rparr> \<and>
   MASATIImageAnnotation_annotations
     \<lparr>raw_annotations =
       [Some \<lparr>class_id = 0, center_x = PFloat (1/2), center_y = PFloat (1/2),
              width = PFloat (1/5), height = PFloat (2/5)\<rparr>, None]\<rparr> = Inl AttributeError \<and>
   MASATIImageAnnotation_from_str (StrList [''0 0.5 0.5'']) = Inr \<lparr>raw_annotations = [None]\<rparr>"
  by (simp add: MASATIImageAnnotation_from_str_def py_split_sep_def parse_defs
      MASATIImageAnnotation_annotations_def)

section \<open>Properties of the mask\<close>

lemma scenario_parse:
  "MASATIImageAnnotation_from_str (Str ''0 0.5 0.5 0.2 0.4'') =
     Inr \<lparr>raw_annotations =
       [Some \<lparr>class_id = 0, center_x = PFloat (1/2), center_y = PFloat (1/2),
              width = PFloat (1/5), height = PFloat (2/5)\<rparr>]\<rparr>"
  by (simp add: MASATIImageAnnotation_from_str_def py_split_sep_def parse_defs)

lemma scenario_corner:
  "to_bbox \<lparr>class_id = 0, center_x = PFloat (1/2), center_y = PFloat (1/2),
              width = PFloat (1/5), height = PFloat (2/5)\<rparr> =
   \<lparr>class_id = 0, min_x = PFloat (2/5), max_x = PFloat (3/5), min_y = PFloat (3/10),
     max_y = PFloat (7/10)\<rparr>"
  by (simp add: to_bbox_def py_half_def)

lemma scenario_absolute:
  "BoundingBox_to_absolute
     \<lparr>class_id = 0, min_x = PFloat (2/5), max_x = PFloat (3/5), min_y = PFloat (3/10),
      max_y = PFloat (7/10)\<rparr> 100 50 =
   \<lparr>class_id = 0, min_x = PInt 40, max_x = PInt 60, min_y = PInt 15, max_y = PInt 35\<rparr>"
  by (simp add: BoundingBox_to_absolute_def BoundingBox_is_absolute_def BoundingBox_is_relative_def
      check_is_relative_def trunc_toward_zero_def)

lemma scenario_create_mask:
  "create_mask \<lparr>img = \<lparr>shape = [3, 50, 100], elems = px\<rparr>,
      annotations = \<lparr>raw_annotations =
       [Some \<lparr>class_id = 0, center_x = PFloat (1/2), center_y = PFloat (1/2),
              width = PFloat (1/5), height = PFloat (2/5)\<rparr>]\<rparr>\<rparr> = Inr scenario_mask"
  unfolding create_mask_def MASATIImageAnnotation_annotations_def scenario_mask_def
  by (simp add: scenario_corner scenario_absolute zeros_def setitem_slices_def Let_def)
    (rule ext, simp add: slice_bound_def split: list.split)

lemma scenario_foreground:
  "foreground scenario_mask = (\<lambda>(r, q). [r, q]) ` ({15..<35} \<times> {40..<60})"
proof (rule set_eqI)
  fix idx :: "nat list"
  show "idx \<in> foreground scenario_mask \<longleftrightarrow> idx \<in> (\<lambda>(r, q). [r, q]) ` ({15..<35} \<times> {40..<60})"
  proof
    assume "idx \<in> foreground scenario_mask"
    then have v: "list_all2 (<) idx [50, 100]" and e: "elems scenario_mask idx = 255"
      by (simp_all add: foreground_def valid_index_def scenario_mask_def)
    from v obtain r q where idx: "idx = [r, q]"
      by (auto simp add: list_all2_Cons2)
    from e idx have "15 \<le> r \<and> r < 35 \<and> 40 \<le> q \<and> q < 60"
      by (simp add: scenario_mask_def split: if_splits)
    with idx show "idx \<in> (\<lambda>(r, q). [r, q]) ` ({15..<35} \<times> {40..<60})" by auto
  next
    assume "idx \<in> (\<lambda>(r, q). [r, q]) ` ({15..<35} \<times> {40..<60})"
    then show "idx \<in> foreground scenario_mask"
      by (auto simp add: foreground_def valid_index_def scenario_mask_def)
  qed
qed

lemma scenario_card: "card (foreground scenario_mask) = 400"
proof -
  have "inj_on (\<lambda>(r, q). [r, q]) ({15..<35} \<times> {40..<60} :: (nat \<times> nat) set)"
    by (auto simp add: inj_on_def)
  then have "card (foreground scenario_mask) = card ({15..<35} \<times> {40..<60} :: (nat \<times> nat) set)"
    unfolding scenario_foreground by (rule card_image)
  then show ?thesis by simp
qed

lemma scenario_background:
  "elems scenario_mask [r, q] = (if [r, q] \<in> foreground scenario_mask then 255 else 0)"
proof -
  have "[r, q] \<in> foreground scenario_mask \<longleftrightarrow> 15 \<le> r \<and> r < 35 \<and> 40 \<le> q \<and> q < 60"
    unfolding scenario_foreground by auto
  then show ?thesis by (simp add: scenario_mask_def)
qed

text \<open>
  Claim C5. For an image of width 100 and height 50, whatever its pixels, and the single
  annotation line \<^verbatim>\<open>0 0.5 0.5 0.2 0.4\<close>: the line parses to one center box; its corner
  form, made absolute, is \<open>min_x = 40\<close>, \<open>max_x = 60\<close>, \<open>min_y = 15\<close>, \<open>max_y = 35\<close>;
  \<^verbatim>\<open>create_mask\<close> returns the 50 by 100 mask whose foreground pixels are exactly those at
  rows 15 to 34 and columns 40 to 59, 400 of them, every other pixel being 0.
\<close>

theorem scenario_100_by_50:
  "MASATIImageAnnotation_from_str (Str ''0 0.5 0.5 0.2 0.4'') =
     Inr \<lparr>raw_annotations =
       [Some \<lparr>class_id = 0, center_x = PFloat (1/2), center_y = PFloat (1/2),
              width = PFloat (1/5), height = PFloat (2/5)\<rparr>]\<rparr> \<and>
   BoundingBox_to_absolute
     (to_bbox \<lparr>class_id = 0, center_x = PFloat (1/2), center_y = PFloat (1/2),
               width = PFloat (1/5), height = PFloat (2/5)\<rparr>) 100 50 =
     \<lparr>class_id = 0, min_x = PInt 40, max_x = PInt 60, min_y = PInt 15, max_y = PInt 35\<rparr> \<and>
   create_mask \<lparr>img = \<lparr>shape = [3, 50, 100], elems = px\<rparr>,
      annotations = \<lparr>raw_annotations =
       [Some \<lparr>class_id = 0, center_x = PFloat (1/2), center_y = PFloat (1/2),
              width = PFloat (1/5), height = PFloat (2/5)\<rparr>]\<rparr>\<rparr> = Inr scenario_mask \<and>
   shape scenario_mask = [50, 100] \<and>
   foreground scenario_mask = (\<lambda>(r, q). [r, q]) ` ({15..<35} \<times> {40..<60}) \<and>
   card (foreground scenario_mask) = 400 \<and>
   (\<forall>r q. elems scenario_mask [r, q] = (if [r, q] \<in> foreground scenario_mask then 255 else 0))"
proof -
  have "shape scenario_mask = [50, 100]" by (simp add: scenario_mask_def)
  moreover note scenario_parse scenario_create_mask scenario_foreground scenario_card
  moreover have "BoundingBox_to_absolute
     (to_bbox \<lparr>class_id = 0, center_x = PFloat (1/2), center_y = PFloat (1/2),
               width = PFloat (1/5), height = PFloat (2/5)\<rparr>) 100 50 =
     \<lparr>class_id = 0, min_x = PInt 40, max_x = PInt 60, min_y = PInt 15, max_y = PInt 35\<rparr>"
    unfolding scenario_corner by (rule scenario_absolute)
  moreover have "\<forall>r q. elems scenario_mask [r, q] =
      (if [r, q] \<in> foreground scenario_mask then 255 else 0)"
    using scenario_background by blast
  ultimately show ?thesis by blast
qed

subsection \<open>Boxes that reach outside the image\<close>

lemma scaled_inside:
  assumes "check_is_relative x"
  shows "0 \<le> val (py_int (py_mul x (int n))) \<and> val (py_int (py_mul x (int n))) \<le> real n"
proof (cases x)
  case (PInt i)
  with assms have "0 \<le> i" "i \<le> 1" by (simp_all add: check_is_relative_def)
  then have "i = 0 \<or> i = 1" by auto
  with PInt show ?thesis by auto
next
  case (PFloat r)
  with assms have r: "0 \<le> r" "r \<le> 1" by (simp_all add: check_is_relative_def)
  then have 0: "0 \<le> r * real n" by simp
  from r have "r * real n \<le> 1 * real n" by (intro mult_right_mono) simp_all
  then have 1: "r * real n \<le> real n" by simp
  from 0 have "0 \<le> \<lfloor>r * real n\<rfloor>" by simp
  moreover from 1 have "real_of_int \<lfloor>r * real n\<rfloor> \<le> real n" by linarith
  ultimately show ?thesis using PFloat 0 by (simp add: trunc_toward_zero_def)
qed

text \<open>A relative corner box is scaled to pixels inside the image.\<close>

lemma relative_inside_extent:
  assumes "BoundingBox_is_relative b"
  shows "\<not> outside_extent (BoundingBox_to_absolute b (int W) (int H)) W H"
  using assms scaled_inside [of "min_x b" W] scaled_inside [of "max_x b" W]
    scaled_inside [of "min_y b" H] scaled_inside [of "max_y b" H]
  by (simp add: outside_extent_def BoundingBox_to_absolute_def BoundingBox_is_absolute_def
      BoundingBox_is_relative_def not_less)


lemma to_bbox_all_None: "None \<in> set raw \<Longrightarrow> to_bbox_all raw = Inl AttributeError"
proof (induction raw)
  case Nil
  then show ?case by simp
next
  case (Cons a raw)
  then show ?case by (cases a) auto
qed







text \<open>
  A corner form that is relative stays inside the image, both in normalized coordinates
  times the image size and after \<open>to_absolute\<close> (the lemma \<open>relative_inside_extent\<close>
  above). So the boxes that reach outside the image, on either reading of their pixel
  coordinates, are among those whose corner form is not relative.
\<close>

lemma unit_interval_scaled:
  assumes "check_is_relative f"
  shows "0 \<le> val f * real n \<and> val f * real n \<le> real n"
proof -
  from assms have "0 \<le> val f" "val f \<le> 1" by (simp_all add: check_is_relative_def)
  then have "0 \<le> val f * real n" "val f * real n \<le> 1 * real n"
    by (simp, intro mult_right_mono, simp_all)
  then show ?thesis by simp
qed




section \<open>Properties of the constructor\<close>

text \<open>
  Claim C9, as the code has it. For an image buffer of at least three axes, constructing
  an \<^verbatim>\<open>Annotation2Mask\<close> raises ValueError exactly when the buffer has more than three
  axes or neither its first nor its last axis has size 3. Otherwise the construction
  succeeds, the annotations are kept, and a buffer whose last axis has size 3 is
  transposed to channel-first layout: the shape \<open>(h, w, 3)\<close> becomes \<open>(3, h, w)\<close> and the
  element at \<open>[i, j, k]\<close> is the one that was at \<open>[j, k, i]\<close>; any other buffer is kept
  as it is.
\<close>

theorem post_init_three_axes:
  assumes n: "3 \<le> length (shape (img self))"
  shows "(post_init self = Inl ValueError \<longleftrightarrow>
            3 < length (shape (img self)) \<or>
            (hd (shape (img self)) \<noteq> 3 \<and> last (shape (img self)) \<noteq> 3)) \<and>
         (\<not> (3 < length (shape (img self)) \<or>
             (hd (shape (img self)) \<noteq> 3 \<and> last (shape (img self)) \<noteq> 3)) \<longrightarrow>
            (\<exists>ok. post_init self = Inr ok \<and> annotations ok = annotations self \<and>
               (if last (shape (img self)) = 3
                then shape (img ok) = [3, shape (img self) ! 0, shape (img self) ! 1] \<and>
                     (\<forall>i j k. elems (img ok) [i, j, k] = elems (img self) [j, k, i])
                else img ok = img self)))"
proof (cases "3 < length (shape (img self))")
  case True
  then show ?thesis by (simp add: post_init_def)
next
  case False
  with n have "length (shape (img self)) = 3" by simp
  then obtain s0 s1 s2 where s: "shape (img self) = [s0, s1, s2]"
    by (auto simp add: length_Suc_conv numeral_3_eq_3)
  then show ?thesis
    by (auto simp add: post_init_def transpose_2_0_1_def)
qed

theorem post_init_three_axes_witness:
  "\<exists>ok. post_init \<lparr>img = \<lparr>shape = [50, 100, 3], elems = (\<lambda>idx. 0 :: 8 word)\<rparr>,
                     annotations = \<lparr>raw_annotations = []\<rparr>\<rparr> = Inr ok \<and>
        shape (img ok) = [3, 50, 100]"
  using post_init_three_axes
    [of "\<lparr>img = \<lparr>shape = [50, 100, 3], elems = (\<lambda>idx. 0 :: 8 word)\<rparr>,
          annotations = \<lparr>raw_annotations = []\<rparr>\<rparr>"]
  by auto

text \<open>
  The claim as written fails below three axes: a buffer of shape \<open>(4, 3)\<close> has no more
  than three axes and its last axis has size 3, yet the transposition to channel-first
  raises ValueError, so the construction fails.
\<close>

theorem post_init_counterexample:
  "\<not> 3 < length [4, 3 :: nat] \<and> last [4, 3 :: nat] = 3 \<and>
   post_init \<lparr>img = \<lparr>shape = [4, 3], elems = (\<lambda>idx. 0 :: 8 word)\<rparr>,
              annotations = \<lparr>raw_annotations = []\<rparr>\<rparr> = Inl ValueError"
  by (simp add: post_init_def transpose_2_0_1_def)

end
